theory Spec2Isabelle
  imports Complex_Main
begin

section \<open>Oscilloscope trainer: instrument state, dispatcher, probe and tutorial\<close>

text \<open>
  A shallow embedding of \<^verbatim>\<open>src/main.js\<close>. The module-level variables of the script are
  the fields of the record \<open>world\<close>; every function of the script that touches them is a
  function from \<open>world\<close> to \<open>world\<close>. JavaScript numbers that hold table indices and the
  tutorial step are \<open>int\<close>: integers of magnitude up to \<open>2 ^ 53\<close> are doubles, and their sums
  are exact as long as they stay in that range. The numbers that \<^verbatim>\<open>drawScreen\<close> computes in
  double arithmetic are not evaluated: the frame holds, for each of them, the expression
  that the script evaluates (\<open>jsnum\<close>), operation by operation and in the script's order;
  so does the phase that \<^verbatim>\<open>animate\<close> accumulates. The toast countdown and the position of
  the dragged probe are kept as reals; no statement below reads their values.
  A read that yields \<^verbatim>\<open>undefined\<close> in JavaScript is \<open>None\<close>, or \<open>Undef\<close> inside an expression.

  Scene-graph updates that only change how the instrument looks (material colours,
  button and step-card textures, mesh visibility, knob rotation, the highlight ring)
  carry no state that any function reads back, and are left out.
\<close>

subsection \<open>Value tables and JavaScript primitives\<close>

definition TIMEBASE_VALUES :: "real list" where
  "TIMEBASE_VALUES = [0.1, 0.2, 0.5, 1, 2, 5, 10, 20]"

definition VDIV_VALUES :: "real list" where
  "VDIV_VALUES = [0.1, 0.2, 0.5, 1, 2, 5]"

definition TRIGGER_VALUES :: "real list" where
  "TRIGGER_VALUES = [-3, -2, -1, 0, 1, 2, 3]"

definition index :: "'a list \<Rightarrow> int \<Rightarrow> 'a option" where
  \<comment> \<open>\<^verbatim>\<open>xs[i]\<close>: \<^verbatim>\<open>undefined\<close> outside the array.\<close>
  "index xs i = (if 0 \<le> i \<and> i < int (length xs) then Some (xs ! nat i) else None)"

definition js_rem :: "int \<Rightarrow> int \<Rightarrow> int" where
  \<comment> \<open>\<^verbatim>\<open>a % b\<close> on integers with \<open>b \<noteq> 0\<close>: the remainder of the truncating division,
      which takes the sign of the dividend. Where a negative dividend leaves no remainder
      JavaScript gives \<^verbatim>\<open>-0\<close>, which reads the same array entry and adds like \<open>0\<close>.\<close>
  "js_rem a b = sgn a * (\<bar>a\<bar> mod \<bar>b\<bar>)"

subsection \<open>Tutorial steps\<close>

record step =
  step_id :: int
  highlight :: string

definition STEPS :: "step list" where
  \<comment> \<open>The title and description of a step are only drawn on its card.\<close>
  "STEPS =
    [\<lparr>step_id = 0, highlight = ''power''\<rparr>,
     \<lparr>step_id = 1, highlight = ''ch1''\<rparr>,
     \<lparr>step_id = 2, highlight = ''wave''\<rparr>,
     \<lparr>step_id = 3, highlight = ''timebase''\<rparr>,
     \<lparr>step_id = 4, highlight = ''vdiv''\<rparr>,
     \<lparr>step_id = 5, highlight = ''trigger''\<rparr>,
     \<lparr>step_id = 6, highlight = ''runstop''\<rparr>,
     \<lparr>step_id = 7, highlight = ''''\<rparr>]"

subsection \<open>Instrument state\<close>

record osc_state =
  power :: bool
  probeConnected :: bool
  waveform :: "string option"
  frequency :: real
  amplitude :: real
  timebaseIdx :: int
  vdivIdx :: int
  triggerIdx :: int
  isRunning :: bool
  currentStep :: int

definition oscState0 :: osc_state where
  "oscState0 =
    \<lparr>power = False, probeConnected = False, waveform = Some ''sine'',
     frequency = 1000, amplitude = 3,
     timebaseIdx = 3, vdivIdx = 3, triggerIdx = 3,
     isRunning = True, currentStep = 0\<rparr>"

subsection \<open>The screen\<close>

definition SCREEN_W :: nat where "SCREEN_W = 512"
definition SCREEN_H :: nat where "SCREEN_H = 320"

datatype jsnum =
    Lit real
  | Undef
  | MathPI
  | Add jsnum jsnum
  | Sub jsnum jsnum
  | Mul jsnum jsnum
  | Div jsnum jsnum
  | MathSin jsnum
  | MathSign jsnum
  | MathAsin jsnum

text \<open>
  \<open>Lit x\<close> is a number read from a variable or written as a literal, with the value the
  script's text gives it; \<open>Undef\<close> is \<^verbatim>\<open>undefined\<close> read from outside a table; the other
  constructors are \<^verbatim>\<open>Math.PI\<close>, the four operators and the three library functions.
\<close>

definition tableNum :: "real list \<Rightarrow> int \<Rightarrow> jsnum" where
  \<comment> \<open>\<^verbatim>\<open>TABLE[idx]\<close> used as a number.\<close>
  "tableNum xs i = (case index xs i of None \<Rightarrow> Undef | Some v \<Rightarrow> Lit v)"

datatype freq_label = KHz jsnum | Hz jsnum

record frame =
  fr_trace :: "(nat \<times> jsnum) list"
  fr_trigY :: jsnum
  fr_freq :: freq_label
  fr_vpp :: jsnum
  fr_timebase :: jsnum
  fr_vdiv :: jsnum

datatype screen =
    ScreenBlank
  | ScreenPowerOff
  | ScreenNoProbe
  | ScreenStop frame
  | ScreenRun frame

definition periodsShown :: "osc_state \<Rightarrow> jsnum" where
  "periodsShown s =
    (let timebase = tableNum TIMEBASE_VALUES (timebaseIdx s);
         totalTimeMs = Mul timebase (Lit 10);
         periodMs = Div (Lit 1000) (Lit (frequency s))
     in Div totalTimeMs periodMs)"

definition ampScale :: "osc_state \<Rightarrow> jsnum" where
  "ampScale s =
    (let vdiv = tableNum VDIV_VALUES (vdivIdx s);
         totalVoltage = Mul vdiv (Lit 8)
     in Mul (Div (Lit (real SCREEN_H)) (Lit 2))
            (Div (Lit (amplitude s)) (Div totalVoltage (Lit 2))))"

definition waveNorm :: "string option \<Rightarrow> jsnum \<Rightarrow> jsnum" where
  "waveNorm wform t =
    (if wform = Some ''sine'' then MathSin t
     else if wform = Some ''square'' then MathSign (MathSin t)
     else Mul (Div (Lit 2) MathPI) (MathAsin (MathSin t)))"

definition traceY :: "osc_state \<Rightarrow> jsnum \<Rightarrow> nat \<Rightarrow> jsnum" where
  \<comment> \<open>The body of the loop over \<open>px\<close>: the height of the trace at column \<open>px\<close>.\<close>
  "traceY s phase px =
    (let t = Add (Mul (Mul (Mul (Div (Lit (real px)) (Lit (real SCREEN_W))) MathPI) (Lit 2))
                      (periodsShown s))
                 phase;
         norm = waveNorm (waveform s) t
     in Sub (Div (Lit (real SCREEN_H)) (Lit 2)) (Mul norm (ampScale s)))"

definition trigY :: "osc_state \<Rightarrow> jsnum" where
  "trigY s =
    (let trigDiv = tableNum TRIGGER_VALUES (triggerIdx s)
     in Sub (Div (Lit (real SCREEN_H)) (Lit 2))
            (Mul (Div trigDiv (Lit 4)) (Div (Lit (real SCREEN_H)) (Lit 2))))"

definition liveFrame :: "osc_state \<Rightarrow> jsnum \<Rightarrow> frame" where
  "liveFrame s phase =
    \<lparr>fr_trace = map (\<lambda>px. (px, traceY s phase px)) [0..<Suc SCREEN_W],
     fr_trigY = trigY s,
     fr_freq = (if frequency s \<ge> 1000 then KHz (Div (Lit (frequency s)) (Lit 1000))
                else Hz (Lit (frequency s))),
     fr_vpp = Mul (Lit (amplitude s)) (Lit 2),
     fr_timebase = tableNum TIMEBASE_VALUES (timebaseIdx s),
     fr_vdiv = tableNum VDIV_VALUES (vdivIdx s)\<rparr>"

subsection \<open>Feedback and the whole state\<close>

text \<open>
  The argument of \<^verbatim>\<open>showToast\<close> is kept as a value rather than as the formatted string:
  \<^item> \<open>ToastPowerOn\<close>, \<open>ToastPowerOff\<close>: \<^verbatim>\<open>"Power ON"\<close>, \<^verbatim>\<open>"Power OFF"\<close>;
  \<^item> \<open>ToastProbeGrabbed\<close>: \<^verbatim>\<open>"Probe grabbed - move to the CH1 port"\<close>;
  \<^item> \<open>ToastProbeReleased\<close>: \<^verbatim>\<open>"Probe released"\<close>;
  \<^item> \<open>ToastProbeConnected\<close>: \<^verbatim>\<open>"Probe connected - CH1"\<close>;
  \<^item> \<open>ToastProbeDisconnected\<close>: \<^verbatim>\<open>"Probe disconnected"\<close>;
  \<^item> \<open>ToastGrabFirst\<close>: \<^verbatim>\<open>"Grab the probe first, then insert into CH1"\<close>;
  \<^item> \<open>ToastWaveform wf\<close>: \<^verbatim>\<open>"Waveform: "\<close> and \<open>wf\<close> with its first letter in upper case;
  \<^item> \<open>ToastTimebase v\<close>, \<open>ToastVdiv v\<close>, \<open>ToastTrigger v\<close>: the table entry at the new
    index, with its unit (\<open>None\<close> prints as \<^verbatim>\<open>undefined\<close>);
  \<^item> \<open>ToastRunning\<close>, \<open>ToastStopped\<close>: \<^verbatim>\<open>"Running..."\<close>, \<^verbatim>\<open>"STOPPED - waveform frozen"\<close>;
  \<^item> \<open>ToastAuto\<close>: \<^verbatim>\<open>"AUTO - settings reset to defaults"\<close>;
  \<^item> \<open>ToastLabel l\<close>: the label of the control under an XR controller ray.
\<close>

datatype toast_msg =
    ToastPowerOn
  | ToastPowerOff
  | ToastProbeGrabbed
  | ToastProbeReleased
  | ToastProbeConnected
  | ToastProbeDisconnected
  | ToastGrabFirst
  | ToastWaveform string
  | ToastTimebase "real option"
  | ToastVdiv "real option"
  | ToastTrigger "real option"
  | ToastRunning
  | ToastStopped
  | ToastAuto
  | ToastLabel string

datatype effect = Toast toast_msg | ClickCue

datatype probe_pos = PROBE_REST | ProbeAt real real real

datatype js_error = TypeError

record intr =
  ctrlType :: string
  ex_waveform :: "string option"
  dir :: "int option"
  label :: "string option"

record world =
  osc :: osc_state
  probeGrabbed :: bool
  probePos :: probe_pos
  frozenImageData :: "frame option"
  screen :: screen
  wavePhase :: jsnum
  toastText :: "toast_msg option"
  toastVisible :: bool
  toastTimer :: real
  cursor :: string
  hoveredCtrl :: "intr option"
  emitted :: "effect list"

definition world0 :: world where
  "world0 =
    \<lparr>osc = oscState0, probeGrabbed = False, probePos = PROBE_REST,
     frozenImageData = None, screen = ScreenBlank, wavePhase = Lit 0,
     toastText = None, toastVisible = False, toastTimer = 0,
     cursor = '''', hoveredCtrl = None, emitted = []\<rparr>"

definition BW :: real where "BW = 0.52"
definition BH :: real where "BH = 0.48"
definition BD :: real where "BD = 0.40"

definition drawScreen :: "jsnum \<Rightarrow> world \<Rightarrow> world" where
  "drawScreen phase w =
    (if \<not> power (osc w) then w\<lparr>screen := ScreenPowerOff\<rparr>
     else if \<not> probeConnected (osc w) then w\<lparr>screen := ScreenNoProbe\<rparr>
     else
       (case (isRunning (osc w), frozenImageData w) of
          (False, Some img) \<Rightarrow> w\<lparr>screen := ScreenStop img\<rparr>
        | _ \<Rightarrow>
            (let f = liveFrame (osc w) phase
             in w\<lparr>screen := ScreenRun f, frozenImageData := Some f\<rparr>)))"

definition showToast :: "toast_msg \<Rightarrow> world \<Rightarrow> world" where
  "showToast text w =
    w\<lparr>toastText := Some text, toastVisible := True, toastTimer := 2,
      emitted := emitted w @ [Toast text]\<rparr>"

definition playClick :: "world \<Rightarrow> world" where
  \<comment> \<open>The request for the short cue; whether the audio buffer is loaded is the audio
      collaborator's business.\<close>
  "playClick w = w\<lparr>emitted := emitted w @ [ClickCue]\<rparr>"

subsection \<open>Tutorial advance\<close>

definition advanceStep :: "string \<Rightarrow> world \<Rightarrow> world" where
  "advanceStep ct w =
    (case index STEPS (currentStep (osc w)) of
       None \<Rightarrow> w
     | Some cur \<Rightarrow>
         if highlight cur = ct \<or> currentStep (osc w) = 7
         then (if currentStep (osc w) < int (length STEPS) - 1
               then w\<lparr>osc := (osc w)\<lparr>currentStep := currentStep (osc w) + 1\<rparr>\<rparr>
               else w)
         else w)"

subsection \<open>Probe helpers\<close>

definition snapProbeToCH1 :: "world \<Rightarrow> world" where
  "snapProbeToCH1 w =
    playClick (advanceStep ''ch1'' (showToast ToastProbeConnected
      (w\<lparr>probeGrabbed := False,
         osc := (osc w)\<lparr>probeConnected := True\<rparr>,
         probePos := ProbeAt (- 0.16) (- 0.13) (BD / 2 + 0.010),
         cursor := ''default''\<rparr>)))"

definition unplugProbe :: "world \<Rightarrow> world" where
  "unplugProbe w =
    showToast ToastProbeDisconnected
      (w\<lparr>osc := (osc w)\<lparr>probeConnected := False\<rparr>,
         probeGrabbed := False,
         probePos := PROBE_REST\<rparr>)"

subsection \<open>The control dispatcher\<close>

definition dirOf :: "intr \<Rightarrow> int" where
  \<comment> \<open>\<^verbatim>\<open>extra.dir ?? 1\<close>\<close>
  "dirOf extra = (case dir extra of None \<Rightarrow> 1 | Some v \<Rightarrow> v)"

definition exactInt :: "int \<Rightarrow> bool" where
  \<comment> \<open>The integers that are doubles without a gap between them.\<close>
  "exactInt n = (\<bar>n\<bar> \<le> 2 ^ 53)"

definition exactSum :: "int \<Rightarrow> int \<Rightarrow> nat \<Rightarrow> bool" where
  \<comment> \<open>Both additions of \<^verbatim>\<open>idx + dir + TABLE.length\<close> are exact in double arithmetic.\<close>
  "exactSum idx d len =
    (exactInt idx \<and> exactInt d \<and> exactInt (idx + d) \<and> exactInt (idx + d + int len))"

definition rotateIdx :: "int \<Rightarrow> int \<Rightarrow> nat \<Rightarrow> int" where
  \<comment> \<open>\<^verbatim>\<open>(idx + dir + TABLE.length) % TABLE.length\<close>, as the script computes it when
      \<open>exactSum idx d len\<close>; beyond that range the script's sums are rounded and this
      definition says nothing about them.\<close>
  "rotateIdx idx d len = js_rem (idx + d + int len) (int len)"

definition handleControl :: "string \<Rightarrow> intr \<Rightarrow> world \<Rightarrow> js_error option \<times> world" where
  "handleControl ct extra w =
    (if ct = ''power'' then
       (let w1 = w\<lparr>osc := (osc w)\<lparr>power := \<not> power (osc w)\<rparr>\<rparr>
        in (None, advanceStep ''power''
              (showToast (if power (osc w1) then ToastPowerOn else ToastPowerOff) w1)))
     else if ct = ''probe_body'' then
       (if probeConnected (osc w) then (None, unplugProbe w)
        else
          (let w1 = w\<lparr>probeGrabbed := \<not> probeGrabbed w\<rparr>
           in if probeGrabbed w1
              then (None, (showToast ToastProbeGrabbed w1)\<lparr>cursor := ''grabbing''\<rparr>)
              else (None, showToast ToastProbeReleased
                            (w1\<lparr>probePos := PROBE_REST, cursor := ''default''\<rparr>))))
     else if ct = ''ch1'' then
       (if probeConnected (osc w) then (None, unplugProbe w)
        else if probeGrabbed w then (None, snapProbeToCH1 w)
        else (None, showToast ToastGrabFirst w))
     else if ct = ''wave'' then
       (let w1 = w\<lparr>osc := (osc w)\<lparr>waveform := ex_waveform extra\<rparr>\<rparr>
        in case ex_waveform extra of
             None \<Rightarrow> (Some TypeError, w1)
           | Some name \<Rightarrow> (None, advanceStep ''wave'' (showToast (ToastWaveform name) w1)))
     else if ct = ''timebase'' then
       (let w1 = w\<lparr>osc := (osc w)\<lparr>timebaseIdx :=
                   rotateIdx (timebaseIdx (osc w)) (dirOf extra) (length TIMEBASE_VALUES)\<rparr>\<rparr>
        in (None, advanceStep ''timebase''
              (showToast (ToastTimebase (index TIMEBASE_VALUES (timebaseIdx (osc w1)))) w1)))
     else if ct = ''vdiv'' then
       (let w1 = w\<lparr>osc := (osc w)\<lparr>vdivIdx :=
                   rotateIdx (vdivIdx (osc w)) (dirOf extra) (length VDIV_VALUES)\<rparr>\<rparr>
        in (None, advanceStep ''vdiv''
              (showToast (ToastVdiv (index VDIV_VALUES (vdivIdx (osc w1)))) w1)))
     else if ct = ''trigger'' then
       (let w1 = w\<lparr>osc := (osc w)\<lparr>triggerIdx :=
                   rotateIdx (triggerIdx (osc w)) (dirOf extra) (length TRIGGER_VALUES)\<rparr>\<rparr>
        in (None, advanceStep ''trigger''
              (showToast (ToastTrigger (index TRIGGER_VALUES (triggerIdx (osc w1)))) w1)))
     else if ct = ''runstop'' then
       (let w1 = w\<lparr>osc := (osc w)\<lparr>isRunning := \<not> isRunning (osc w)\<rparr>\<rparr>;
            w2 = (if isRunning (osc w1) then w1\<lparr>frozenImageData := None\<rparr> else w1)
        in (None, advanceStep ''runstop''
              (showToast (if isRunning (osc w2) then ToastRunning else ToastStopped) w2)))
     else if ct = ''auto'' then
       (None, showToast ToastAuto
          (w\<lparr>osc := (osc w)\<lparr>timebaseIdx := 3, vdivIdx := 3, triggerIdx := 3,
                            isRunning := True\<rparr>,
             frozenImageData := None\<rparr>))
     else (None, w))"

subsection \<open>Input events and the frame callback\<close>

definition dropProbe :: "world \<Rightarrow> world" where
  \<comment> \<open>A click on empty space while the probe is grabbed.\<close>
  "dropProbe w =
    showToast ToastProbeReleased
      (w\<lparr>probeGrabbed := False, probePos := PROBE_REST, cursor := ''default''\<rparr>)"

definition onClick :: "bool \<Rightarrow> intr option \<Rightarrow> world \<Rightarrow> js_error option \<times> world" where
  \<comment> \<open>The window click listener; \<open>presenting\<close> is \<^verbatim>\<open>renderer.xr.isPresenting\<close>, \<open>hit\<close> the
      control the ray resolves to.\<close>
  "onClick presenting hit w =
    (if presenting then (None, w)
     else case hit of
            Some i \<Rightarrow> handleControl (ctrlType i) i (playClick w)
          | None \<Rightarrow> if probeGrabbed w then (None, dropProbe w) else (None, w))"

definition onXRSelect :: "intr option \<Rightarrow> world \<Rightarrow> js_error option \<times> world" where
  "onXRSelect hit w =
    (case hit of
       Some i \<Rightarrow> handleControl (ctrlType i) i (playClick w)
     | None \<Rightarrow> (None, w))"

definition clamp :: "real \<Rightarrow> real \<Rightarrow> real \<Rightarrow> real" where
  \<comment> \<open>\<^verbatim>\<open>THREE.MathUtils.clamp(value, min, max)\<close>\<close>
  "clamp v lo hi = max lo (min hi v)"

definition xrHover :: "intr option \<Rightarrow> world \<Rightarrow> world" where
  \<comment> \<open>One turn of the controller loop of the hover tooltip. Registry entries are
      compared by identity in the script; they differ pairwise in their label.\<close>
  "xrHover h w =
    (case h of
       Some i \<Rightarrow>
         if Some i \<noteq> hoveredCtrl w
         then (showToast
                 (ToastLabel (case label i of
                                None \<Rightarrow> ctrlType i
                              | Some l \<Rightarrow> if l = '''' then ctrlType i else l))
                 (w\<lparr>hoveredCtrl := Some i\<rparr>))\<lparr>toastTimer := 1\<rparr>
         else w
     | None \<Rightarrow> w\<lparr>hoveredCtrl := None\<rparr>)"

record frame_input =
  dt :: real
  presenting :: bool
  xrHits :: "intr option \<times> intr option"
  dragHit :: "(real \<times> real) option"
  near :: bool
  mouseHit :: bool

definition animate :: "frame_input \<Rightarrow> world \<Rightarrow> world" where
  \<comment> \<open>\<open>xrHits\<close>: what the two controller rays resolve to; \<open>dragHit\<close>: the point of the
      drag plane under the mouse, in instrument-local coordinates; \<open>near\<close>: whether the
      probe is closer than 0.072 to the CH1 port; \<open>mouseHit\<close>: whether the mouse ray
      resolves to a control.\<close>
  "animate i w =
    (let w1 = (if power (osc w) \<and> isRunning (osc w) \<and> probeConnected (osc w)
               then w\<lparr>wavePhase := Add (wavePhase w) (Mul (Lit (dt i)) (Lit 4))\<rparr> else w);
         w2 = drawScreen (wavePhase w1) w1;
         w3 = (if toastTimer w2 > 0
               then (let w' = w2\<lparr>toastTimer := toastTimer w2 - dt i\<rparr>
                     in if toastTimer w' \<le> 0 then w'\<lparr>toastVisible := False\<rparr> else w')
               else w2);
         w4 = (if presenting i then xrHover (snd (xrHits i)) (xrHover (fst (xrHits i)) w3)
               else w3)
     in if \<not> presenting i then
          (if probeGrabbed w4 \<and> \<not> probeConnected (osc w4) then
             (let w5 = (case dragHit i of
                          Some (x, y) \<Rightarrow>
                            w4\<lparr>probePos := ProbeAt (clamp x (- BW / 2 + 0.02) (BW / 2 - 0.02))
                                                  (clamp y (- BH / 2 + 0.02) (BH / 2 - 0.02))
                                                  (BD / 2 + 0.022)\<rparr>
                        | None \<Rightarrow> w4);
                  w6 = (if near i then snapProbeToCH1 w5 else w5)
              in w6\<lparr>cursor := ''grabbing''\<rparr>)
           else w4\<lparr>cursor := (if mouseHit i then ''pointer'' else ''default'')\<rparr>)
        else w4)"

datatype event =
    Control string intr
  | Click bool "intr option"
  | XRSelect "intr option"
  | Frame frame_input

fun fire :: "event \<Rightarrow> world \<Rightarrow> world" where
  \<comment> \<open>An exception thrown by a listener leaves the state as it was at the throw.\<close>
  "fire (Control ct extra) w = snd (handleControl ct extra w)"
| "fire (Click p hit) w = snd (onClick p hit w)"
| "fire (XRSelect hit) w = snd (onXRSelect hit w)"
| "fire (Frame i) w = animate i w"

fun run :: "event list \<Rightarrow> world \<Rightarrow> world" where
  "run [] w = w"
| "run (e # es) w = run es (fire e w)"

fun history :: "world \<Rightarrow> (string \<times> intr) list \<Rightarrow> world list" where
  \<comment> \<open>The states a sequence of dispatcher calls goes through, the first one included.\<close>
  "history w [] = [w]"
| "history w ((ct, extra) # cs) = w # history (snd (handleControl ct extra w)) cs"

definition expectedControl :: "int \<Rightarrow> string option" where
  \<comment> \<open>\<^verbatim>\<open>STEPS[s].highlight\<close>, the control a step waits for.\<close>
  "expectedControl s = map_option highlight (index STEPS s)"

definition probe_ok :: "world \<Rightarrow> bool" where
  "probe_ok w = (\<not> (probeGrabbed w \<and> probeConnected (osc w)))"

definition plainExtra :: "string \<Rightarrow> intr" where
  \<comment> \<open>A registry entry without \<^verbatim>\<open>waveform\<close> and \<^verbatim>\<open>dir\<close>, as the buttons and knobs have.\<close>
  "plainExtra ct = \<lparr>ctrlType = ct, ex_waveform = None, dir = None, label = None\<rparr>"


definition withDir :: "string \<Rightarrow> int \<Rightarrow> intr" where
  \<comment> \<open>A dispatcher parameter that carries a direction.\<close>
  "withDir ct d = \<lparr>ctrlType = ct, ex_waveform = None, dir = Some d, label = None\<rparr>"

definition validIdx :: "int \<Rightarrow> nat \<Rightarrow> bool" where
  \<comment> \<open>An index within its table.\<close>
  "validIdx i len = (0 \<le> i \<and> i < int len)"

definition wrapsTo :: "int \<Rightarrow> int \<Rightarrow> int \<Rightarrow> nat \<Rightarrow> bool" where
  \<comment> \<open>The new index is the old one moved by \<open>d\<close> modulo the table length, and within the
      table.\<close>
  "wrapsTo new i d len = (new = (i + d) mod int len \<and> 0 \<le> new \<and> new < int len)"

definition waveExtra :: "string \<Rightarrow> intr" where
  \<comment> \<open>The registry entry of a WAVE button.\<close>
  "waveExtra name = \<lparr>ctrlType = ''wave'', ex_waveform = Some name, dir = None, label = None\<rparr>"

definition squareWorld :: world where
  \<comment> \<open>Power on, the probe grabbed and plugged in, the square wave chosen, the timebase
      knob turned once: powered, connected, running, 2 ms/div.\<close>
  "squareWorld =
    run [Control ''power'' (plainExtra ''power''),
         Control ''probe_body'' (plainExtra ''probe_body''),
         Control ''ch1'' (plainExtra ''ch1''),
         Control ''wave'' (waveExtra ''square''),
         Control ''timebase'' (plainExtra ''timebase'')] world0"

definition stoppedEarly :: world where
  \<comment> \<open>Power on, RUN/STOP, the triangle wave chosen, the V/DIV and trigger knobs turned
      once, then the probe grabbed and plugged in, with no frame drawn in between:
      stopped, and no frame captured yet.\<close>
  "stoppedEarly =
    run [Control ''power'' (plainExtra ''power''),
         Control ''runstop'' (plainExtra ''runstop''),
         Control ''wave'' (waveExtra ''triangle''),
         Control ''vdiv'' (plainExtra ''vdiv''),
         Control ''trigger'' (plainExtra ''trigger''),
         Control ''probe_body'' (plainExtra ''probe_body''),
         Control ''ch1'' (plainExtra ''ch1'')] world0"

definition detuned :: world where
  \<comment> \<open>The three knobs turned once each and the display stopped.\<close>
  "detuned =
    run [Control ''timebase'' (plainExtra ''timebase''),
         Control ''vdiv'' (plainExtra ''vdiv''),
         Control ''trigger'' (plainExtra ''trigger''),
         Control ''runstop'' (plainExtra ''runstop'')] world0"

subsection \<open>The signal model as the specification words it\<close>

datatype waveform_kind = Sine | Square | Triangle

fun kindName :: "waveform_kind \<Rightarrow> string" where
  "kindName Sine = ''sine''"
| "kindName Square = ''square''"
| "kindName Triangle = ''triangle''"

definition spec_periodsShown :: "jsnum \<Rightarrow> jsnum \<Rightarrow> jsnum" where
  \<comment> \<open>\<^verbatim>\<open>(timebaseMsPerDiv * 10) / (1000 / frequencyHz)\<close>\<close>
  "spec_periodsShown timebaseMsPerDiv frequencyHz =
    Div (Mul timebaseMsPerDiv (Lit 10)) (Div (Lit 1000) frequencyHz)"

definition spec_angle :: "jsnum \<Rightarrow> jsnum \<Rightarrow> jsnum \<Rightarrow> jsnum" where
  \<comment> \<open>\<^verbatim>\<open>u * 2\<close>\<open>\<pi>\<close>\<^verbatim>\<open> * periodsShown + phase\<close>\<close>
  "spec_angle u periods phase = Add (Mul (Mul u (Mul (Lit 2) MathPI)) periods) phase"

fun spec_shape :: "waveform_kind \<Rightarrow> jsnum \<Rightarrow> jsnum" where
  "spec_shape Sine angle = MathSin angle"
| "spec_shape Square angle = MathSign (MathSin angle)"
| "spec_shape Triangle angle = Mul (Div (Lit 2) MathPI) (MathAsin (MathSin angle))"

subsection \<open>What an expression is worth\<close>

text \<open>
  An arithmetic gives a value to every expression. Double arithmetic is one (its carrier
  has the NaN that \<open>Undef\<close> turns into); it is not defined here. Exact arithmetic is
  another, with \<open>None\<close> where there is no finite value.
\<close>

record 'n arith =
  ar_lit :: "real \<Rightarrow> 'n"
  ar_undef :: 'n
  ar_pi :: 'n
  ar_add :: "'n \<Rightarrow> 'n \<Rightarrow> 'n"
  ar_sub :: "'n \<Rightarrow> 'n \<Rightarrow> 'n"
  ar_mul :: "'n \<Rightarrow> 'n \<Rightarrow> 'n"
  ar_div :: "'n \<Rightarrow> 'n \<Rightarrow> 'n"
  ar_sin :: "'n \<Rightarrow> 'n"
  ar_sign :: "'n \<Rightarrow> 'n"
  ar_asin :: "'n \<Rightarrow> 'n"

fun evalnum :: "'n arith \<Rightarrow> jsnum \<Rightarrow> 'n" where
  "evalnum A (Lit x) = ar_lit A x"
| "evalnum A Undef = ar_undef A"
| "evalnum A MathPI = ar_pi A"
| "evalnum A (Add a b) = ar_add A (evalnum A a) (evalnum A b)"
| "evalnum A (Sub a b) = ar_sub A (evalnum A a) (evalnum A b)"
| "evalnum A (Mul a b) = ar_mul A (evalnum A a) (evalnum A b)"
| "evalnum A (Div a b) = ar_div A (evalnum A a) (evalnum A b)"
| "evalnum A (MathSin a) = ar_sin A (evalnum A a)"
| "evalnum A (MathSign a) = ar_sign A (evalnum A a)"
| "evalnum A (MathAsin a) = ar_asin A (evalnum A a)"

definition lift2 :: "(real \<Rightarrow> real \<Rightarrow> real) \<Rightarrow> real option \<Rightarrow> real option \<Rightarrow> real option" where
  "lift2 f a b = (case (a, b) of (Some x, Some y) \<Rightarrow> Some (f x y) | _ \<Rightarrow> None)"

definition exactArith :: "real option arith" where
  "exactArith =
    \<lparr>ar_lit = Some, ar_undef = None, ar_pi = Some pi,
     ar_add = lift2 (+), ar_sub = lift2 (-), ar_mul = lift2 (*),
     ar_div = (\<lambda>a b. if b = Some 0 then None else lift2 (/) a b),
     ar_sin = map_option sin,
     ar_sign = map_option sgn,
     ar_asin = (\<lambda>a. case a of None \<Rightarrow> None
                        | Some x \<Rightarrow> if \<bar>x\<bar> \<le> 1 then Some (arcsin x) else None)\<rparr>"

definition doublingExact :: "'n arith \<Rightarrow> 'n \<Rightarrow> bool" where
  \<comment> \<open>\<open>(x * \<pi>) * 2 = x * (2 * \<pi>)\<close>. In double arithmetic a product with 2 only moves
      the exponent, so this holds unless \<open>x * \<pi>\<close> overflows or is subnormal; in exact
      arithmetic it always holds.\<close>
  "doublingExact A x =
    (ar_mul A (ar_mul A x (ar_pi A)) (ar_lit A 2) = ar_mul A x (ar_mul A (ar_lit A 2) (ar_pi A)))"

section \<open>Basic facts about the helpers\<close>

lemmas eval_defs = world0_def oscState0_def handleControl_def plainExtra_def showToast_def
  playClick_def advanceStep_def snapProbeToCH1_def unplugProbe_def index_def STEPS_def Let_def
  dirOf_def rotateIdx_def js_rem_def TIMEBASE_VALUES_def VDIV_VALUES_def TRIGGER_VALUES_def

lemma step_cases:
  fixes s :: int
  obtains "s < 0" | "s = 0" | "s = 1" | "s = 2" | "s = 3" | "s = 4"
    | "s = 5" | "s = 6" | "s = 7" | "7 < s"
  by arith

lemma advanceStep_osc:
  "advanceStep k w = w\<lparr>osc := (osc w)\<lparr>currentStep :=
      (if expectedControl (currentStep (osc w)) = Some k \<and> currentStep (osc w) < 7
       then currentStep (osc w) + 1 else currentStep (osc w))\<rparr>\<rparr>"
  by (cases "currentStep (osc w)" rule: step_cases)
     (simp_all add: advanceStep_def expectedControl_def index_def STEPS_def)

lemma advanceStep_probe [simp]:
  "probeGrabbed (advanceStep k w) = probeGrabbed w"
  "probeConnected (osc (advanceStep k w)) = probeConnected (osc w)"
  by (simp_all add: advanceStep_osc)

lemma showToast_fields [simp]:
  "osc (showToast t w) = osc w"
  "probeGrabbed (showToast t w) = probeGrabbed w"
  "frozenImageData (showToast t w) = frozenImageData w"
  by (simp_all add: showToast_def)

lemma playClick_fields [simp]:
  "osc (playClick w) = osc w"
  "probeGrabbed (playClick w) = probeGrabbed w"
  "frozenImageData (playClick w) = frozenImageData w"
  by (simp_all add: playClick_def)

lemma drawScreen_probe [simp]:
  "probeGrabbed (drawScreen ph w) = probeGrabbed w"
  "probeConnected (osc (drawScreen ph w)) = probeConnected (osc w)"
  by (simp_all add: drawScreen_def Let_def split: option.splits bool.splits)

lemma xrHover_probe [simp]:
  "probeGrabbed (xrHover h w) = probeGrabbed w"
  "probeConnected (osc (xrHover h w)) = probeConnected (osc w)"
  by (simp_all add: xrHover_def split: option.splits)

section \<open>The probe is never grabbed and connected at once\<close>

lemma snap_ok: "probe_ok (snapProbeToCH1 w)"
  by (simp add: probe_ok_def snapProbeToCH1_def)

lemma unplug_ok: "probe_ok (unplugProbe w)"
  by (simp add: probe_ok_def unplugProbe_def)

lemma dropProbe_ok: "probe_ok (dropProbe w)"
  by (simp add: probe_ok_def dropProbe_def)

lemma playClick_ok: "probe_ok (playClick w) = probe_ok w"
  by (simp add: probe_ok_def)

lemma handleControl_ok: "probe_ok w \<Longrightarrow> probe_ok (snd (handleControl ct e w))"
  using snap_ok [of w] unplug_ok [of w]
  by (simp add: handleControl_def Let_def probe_ok_def split: option.splits)

lemma onClick_ok: "probe_ok w \<Longrightarrow> probe_ok (snd (onClick p hit w))"
  by (simp add: onClick_def handleControl_ok playClick_ok dropProbe_ok split: option.splits)

lemma onXRSelect_ok: "probe_ok w \<Longrightarrow> probe_ok (snd (onXRSelect hit w))"
  by (simp add: onXRSelect_def handleControl_ok playClick_ok split: option.splits)

lemma animate_ok: "probe_ok w \<Longrightarrow> probe_ok (animate i w)"
  using snap_ok
  by (simp add: animate_def Let_def probe_ok_def split: option.splits prod.splits)

lemma fire_ok: "probe_ok w \<Longrightarrow> probe_ok (fire e w)"
  by (cases e) (simp_all add: handleControl_ok onClick_ok onXRSelect_ok animate_ok)

lemma run_ok: "probe_ok w \<Longrightarrow> probe_ok (run es w)"
  by (induction es arbitrary: w) (simp_all add: fire_ok)

text \<open>
  C1. Whatever events have happened since start-up (dispatcher calls, clicks with or
  without a hit, XR selects, frames with or without the proximity snap), the probe is not
  grabbed and connected at the same time. The empty sequence is the initial state.
\<close>

theorem probe_never_grabbed_and_connected:
  "\<not> (probeGrabbed (run es world0) \<and> probeConnected (osc (run es world0)))"
proof -
  have "probe_ok world0"
    by (simp add: probe_ok_def world0_def)
  then have "probe_ok (run es world0)"
    by (rule run_ok)
  then show ?thesis
    by (simp add: probe_ok_def)
qed

theorem probe_never_grabbed_and_connected_witness:
  "probeConnected (osc (run [Control ''probe_body'' (plainExtra ''probe_body''),
                             Control ''ch1'' (plainExtra ''ch1'')] world0))
   \<and> \<not> probeGrabbed (run [Control ''probe_body'' (plainExtra ''probe_body''),
                             Control ''ch1'' (plainExtra ''ch1'')] world0)"
  using probe_never_grabbed_and_connected
          [of "[Control ''probe_body'' (plainExtra ''probe_body''),
                Control ''ch1'' (plainExtra ''ch1'')]"]
  by (simp add: eval_defs)

section \<open>The tutorial\<close>

text \<open>
  C2. From step \<open>s\<close>, an advance with control kind \<open>k\<close> changes nothing but the step
  index, and the new index is \<open>s + 1\<close> exactly when step \<open>s\<close> waits for \<open>k\<close> and
  \<open>s < 7\<close>, and \<open>s\<close> otherwise; so it never goes down and never goes up by more than
  one.
\<close>

theorem advanceStep_exactly_one_iff_expected:
  "advanceStep k w = w\<lparr>osc := (osc w)\<lparr>currentStep := currentStep (osc (advanceStep k w))\<rparr>\<rparr>
   \<and> (currentStep (osc (advanceStep k w)) = currentStep (osc w) + 1
        \<longleftrightarrow> expectedControl (currentStep (osc w)) = Some k \<and> currentStep (osc w) < 7)
   \<and> (currentStep (osc (advanceStep k w)) = currentStep (osc w)
        \<longleftrightarrow> \<not> (expectedControl (currentStep (osc w)) = Some k \<and> currentStep (osc w) < 7))
   \<and> currentStep (osc w) \<le> currentStep (osc (advanceStep k w))
   \<and> currentStep (osc (advanceStep k w)) \<le> currentStep (osc w) + 1"
  by (simp add: advanceStep_osc)

theorem advanceStep_exactly_one_iff_expected_witness:
  "currentStep (osc (advanceStep ''power'' world0)) = 1
   \<and> currentStep (osc (advanceStep ''ch1'' world0)) = 0
   \<and> expectedControl 0 = Some ''power''"
  using advanceStep_exactly_one_iff_expected [of "''power''" world0]
    advanceStep_exactly_one_iff_expected [of "''ch1''" world0]
  by (simp add: world0_def oscState0_def expectedControl_def index_def STEPS_def)

lemma handleControl_step_mono:
  "currentStep (osc w) \<le> currentStep (osc (snd (handleControl ct e w)))"
  by (simp add: handleControl_def Let_def snapProbeToCH1_def unplugProbe_def advanceStep_osc
           split: option.splits)

lemma handleControl_step_le7:
  "currentStep (osc w) \<le> 7 \<Longrightarrow> currentStep (osc (snd (handleControl ct e w))) \<le> 7"
  by (simp add: handleControl_def Let_def snapProbeToCH1_def unplugProbe_def advanceStep_osc
           split: option.splits)

lemma history_steps:
  "currentStep (osc w) \<le> 7 \<Longrightarrow>
     sorted (map (\<lambda>v. currentStep (osc v)) (history w cs)) \<and>
     (\<forall>v \<in> set (history w cs).
        currentStep (osc w) \<le> currentStep (osc v) \<and> currentStep (osc v) \<le> 7)"
proof (induction cs arbitrary: w)
  case Nil
  then show ?case by simp
next
  case (Cons c cs)
  obtain ct extra where c: "c = (ct, extra)"
    by (cases c)
  let ?w = "snd (handleControl ct extra w)"
  have up: "currentStep (osc w) \<le> currentStep (osc ?w)"
    by (rule handleControl_step_mono)
  have "currentStep (osc ?w) \<le> 7"
    using Cons.prems by (rule handleControl_step_le7)
  from Cons.IH [OF this] up Cons.prems show ?case
    by (auto simp: c)
qed

text \<open>
  C4. Along any finite sequence of dispatcher calls from start-up, with any control
  kinds and any parameters, the step index never goes down from one state to the next,
  and it stays between 0 and 7.
\<close>

theorem currentStep_monotone_bounded:
  "sorted (map (\<lambda>v. currentStep (osc v)) (history world0 cs)) \<and>
   (\<forall>v \<in> set (history world0 cs). 0 \<le> currentStep (osc v) \<and> currentStep (osc v) \<le> 7)"
  using history_steps [of world0 cs]
  by (simp add: world0_def oscState0_def)

theorem currentStep_monotone_bounded_witness:
  "map (\<lambda>v. currentStep (osc v))
      (history world0 [(''power'', plainExtra ''power''), (''auto'', plainExtra ''auto''),
                       (''ch1'', plainExtra ''ch1''), (''wave'', plainExtra ''wave'')])
     = [0, 1, 1, 1, 1]
   \<and> sorted [0, 1, 1, 1, 1 :: int]"
  using currentStep_monotone_bounded
          [of "[(''power'', plainExtra ''power''), (''auto'', plainExtra ''auto''),
                (''ch1'', plainExtra ''ch1''), (''wave'', plainExtra ''wave'')]"]
  by (simp add: eval_defs)

section \<open>The dispatcher\<close>

text \<open>
  C5. From any state and with any parameter, Auto puts the three indices at 3, sets
  \<open>isRunning\<close>, clears the frozen frame, throws nothing, and leaves the tutorial step
  where it was.
\<close>

theorem auto_resets_defaults:
  "fst (handleControl ''auto'' extra w) = None
   \<and> timebaseIdx (osc (snd (handleControl ''auto'' extra w))) = 3
   \<and> vdivIdx (osc (snd (handleControl ''auto'' extra w))) = 3
   \<and> triggerIdx (osc (snd (handleControl ''auto'' extra w))) = 3
   \<and> isRunning (osc (snd (handleControl ''auto'' extra w)))
   \<and> frozenImageData (snd (handleControl ''auto'' extra w)) = None
   \<and> currentStep (osc (snd (handleControl ''auto'' extra w))) = currentStep (osc w)"
  by (simp add: handleControl_def)

theorem auto_resets_defaults_witness:
  "timebaseIdx (osc detuned) = 4 \<and> vdivIdx (osc detuned) = 4 \<and> triggerIdx (osc detuned) = 4
   \<and> \<not> isRunning (osc detuned) \<and> currentStep (osc detuned) = 0
   \<and> timebaseIdx (osc (snd (handleControl ''auto'' (plainExtra ''auto'') detuned))) = 3
   \<and> vdivIdx (osc (snd (handleControl ''auto'' (plainExtra ''auto'') detuned))) = 3
   \<and> triggerIdx (osc (snd (handleControl ''auto'' (plainExtra ''auto'') detuned))) = 3
   \<and> isRunning (osc (snd (handleControl ''auto'' (plainExtra ''auto'') detuned)))
   \<and> currentStep (osc (snd (handleControl ''auto'' (plainExtra ''auto'') detuned))) = 0"
proof -
  have before: "timebaseIdx (osc detuned) = 4 \<and> vdivIdx (osc detuned) = 4
      \<and> triggerIdx (osc detuned) = 4 \<and> \<not> isRunning (osc detuned)
      \<and> currentStep (osc detuned) = 0"
    by (simp add: detuned_def eval_defs)
  from auto_resets_defaults [of "plainExtra ''auto''" detuned] before show ?thesis
    by simp
qed

text \<open>
  C7. With the probe neither grabbed nor connected, activating the CH1 port throws
  nothing and changes nothing but the toast: the message shown is the one that asks to
  grab the probe first, and it is the only effect emitted.
\<close>

theorem ch1_without_probe_is_noop:
  "\<not> probeGrabbed w \<and> \<not> probeConnected (osc w) \<Longrightarrow>
     handleControl ''ch1'' extra w =
       (None, w\<lparr>toastText := Some ToastGrabFirst, toastVisible := True, toastTimer := 2,
                emitted := emitted w @ [Toast ToastGrabFirst]\<rparr>)"
  by (simp add: handleControl_def showToast_def)

theorem ch1_without_probe_is_noop_witness:
  "\<not> probeGrabbed world0 \<and> \<not> probeConnected (osc world0)
   \<and> osc (snd (handleControl ''ch1'' (plainExtra ''ch1'') world0)) = osc world0
   \<and> probeGrabbed (snd (handleControl ''ch1'' (plainExtra ''ch1'') world0)) = False
   \<and> probePos (snd (handleControl ''ch1'' (plainExtra ''ch1'') world0)) = PROBE_REST
   \<and> emitted (snd (handleControl ''ch1'' (plainExtra ''ch1'') world0)) = [Toast ToastGrabFirst]"
proof -
  have rest: "\<not> probeGrabbed world0 \<and> \<not> probeConnected (osc world0)"
    by (simp add: world0_def oscState0_def)
  from ch1_without_probe_is_noop [OF rest, of "plainExtra ''ch1''"] rest show ?thesis
    by (simp add: world0_def)
qed



section \<open>The rotary controls\<close>

lemma js_rem_nonneg: "0 \<le> a \<Longrightarrow> 0 < b \<Longrightarrow> js_rem a b = a mod b"
  by (cases "a = 0") (simp_all add: js_rem_def)

lemma handleControl_rotary_idx:
  "timebaseIdx (osc (snd (handleControl ''timebase'' extra w))) =
     rotateIdx (timebaseIdx (osc w)) (dirOf extra) (length TIMEBASE_VALUES)"
  "vdivIdx (osc (snd (handleControl ''vdiv'' extra w))) =
     rotateIdx (vdivIdx (osc w)) (dirOf extra) (length VDIV_VALUES)"
  "triggerIdx (osc (snd (handleControl ''trigger'' extra w))) =
     rotateIdx (triggerIdx (osc w)) (dirOf extra) (length TRIGGER_VALUES)"
  by (simp_all add: handleControl_def Let_def advanceStep_osc)

lemma rotateIdx_wraps:
  assumes "0 < len" and "0 \<le> i + d + int len"
  shows "rotateIdx i d len = (i + d) mod int len"
    and "0 \<le> rotateIdx i d len" and "rotateIdx i d len < int len"
proof -
  have "rotateIdx i d len = (i + d + int len) mod int len"
    using assms by (simp add: rotateIdx_def js_rem_nonneg)
  then show "rotateIdx i d len = (i + d) mod int len"
    by simp
  then show "0 \<le> rotateIdx i d len" and "rotateIdx i d len < int len"
    using assms(1) by simp_all
qed

lemma rotateIdx_iterate:
  assumes "0 < len" and "0 \<le> i" and "i < int len"
  shows "((\<lambda>j. rotateIdx j 1 len) ^^ n) i = (i + int n) mod int len"
proof (induction n)
  case 0
  show ?case using assms by simp
next
  case (Suc n)
  have "0 \<le> (i + int n) mod int len + 1 + int len"
    using assms(1) by (simp add: add_nonneg_nonneg)
  with assms(1) have "rotateIdx ((i + int n) mod int len) 1 len
      = ((i + int n) mod int len + 1) mod int len"
    by (rule rotateIdx_wraps)
  also have "\<dots> = (i + int n + 1) mod int len"
    by (rule mod_add_left_eq)
  also have "i + int n + 1 = i + int (Suc n)"
    by simp
  finally show ?case
    by (simp add: Suc.IH)
qed

lemma rotateIdx_full_turn:
  assumes "0 \<le> i" and "i < int len"
  shows "((\<lambda>j. rotateIdx j 1 len) ^^ len) i = i"
proof -
  from assms have "0 < len" by simp
  from rotateIdx_iterate [OF this assms, of len] assms show ?thesis
    by simp
qed

lemma turns_idx:
  "timebaseIdx (osc (((\<lambda>v. snd (handleControl ''timebase'' extra v)) ^^ n) w)) =
     ((\<lambda>j. rotateIdx j (dirOf extra) (length TIMEBASE_VALUES)) ^^ n) (timebaseIdx (osc w))"
  "vdivIdx (osc (((\<lambda>v. snd (handleControl ''vdiv'' extra v)) ^^ n) w)) =
     ((\<lambda>j. rotateIdx j (dirOf extra) (length VDIV_VALUES)) ^^ n) (vdivIdx (osc w))"
  "triggerIdx (osc (((\<lambda>v. snd (handleControl ''trigger'' extra v)) ^^ n) w)) =
     ((\<lambda>j. rotateIdx j (dirOf extra) (length TRIGGER_VALUES)) ^^ n) (triggerIdx (osc w))"
  by (induction n) (simp_all add: handleControl_rotary_idx)

lemma rotateIdx_range:
  assumes "0 < len"
  shows "rotateIdx i d len < int len"
    and "(0 \<le> rotateIdx i d len) = (0 \<le> i + d + int len \<or> int len dvd i + d)"
    and "(rotateIdx i d len = (i + d) mod int len) = (0 \<le> i + d + int len \<or> int len dvd i + d)"
proof -
  let ?a = "i + d + int len"
  have m: "?a mod int len = (i + d) mod int len"
    by simp
  have dv: "(int len dvd ?a) = (int len dvd i + d)"
    by simp
  show "rotateIdx i d len < int len"
  proof (cases "0 \<le> ?a")
    case True
    with assms show ?thesis by (simp add: rotateIdx_wraps)
  next
    case False
    then have "rotateIdx i d len = - (\<bar>?a\<bar> mod int len)"
      by (simp add: rotateIdx_def js_rem_def)
    moreover have "0 \<le> \<bar>?a\<bar> mod int len"
      using assms by simp
    ultimately show ?thesis using assms by linarith
  qed
  show nonneg: "(0 \<le> rotateIdx i d len) = (0 \<le> i + d + int len \<or> int len dvd i + d)"
  proof (cases "0 \<le> ?a")
    case True
    with assms show ?thesis by (simp add: rotateIdx_wraps)
  next
    case False
    then have r: "rotateIdx i d len = - (\<bar>?a\<bar> mod int len)"
      by (simp add: rotateIdx_def js_rem_def)
    have "0 \<le> \<bar>?a\<bar> mod int len"
      using assms by simp
    then have "(0 \<le> rotateIdx i d len) = (\<bar>?a\<bar> mod int len = 0)"
      using r by linarith
    also have "\<dots> = (int len dvd \<bar>?a\<bar>)"
      by (simp add: dvd_eq_mod_eq_0)
    also have "\<dots> = (int len dvd i + d)"
      using dv by simp
    finally show ?thesis using False by simp
  qed
  show "(rotateIdx i d len = (i + d) mod int len) = (0 \<le> i + d + int len \<or> int len dvd i + d)"
  proof (cases "0 \<le> i + d + int len \<or> int len dvd i + d")
    case True
    then show ?thesis
    proof
      assume "0 \<le> i + d + int len"
      with assms True show ?thesis by (simp add: rotateIdx_wraps)
    next
      assume d: "int len dvd i + d"
      then have "int len dvd \<bar>?a\<bar>" using dv by simp
      then have "rotateIdx i d len = 0"
        by (simp add: rotateIdx_def js_rem_def dvd_eq_mod_eq_0)
      with d True show ?thesis by (simp add: dvd_eq_mod_eq_0)
    qed
  next
    case False
    with nonneg have "rotateIdx i d len < 0" by simp
    moreover have "0 \<le> (i + d) mod int len" using assms by simp
    ultimately show ?thesis using False by simp
  qed
qed


lemma rotateIdx_wrapsTo:
  "0 < len \<Longrightarrow>
     wrapsTo (rotateIdx i d len) i d len = (0 \<le> i + d + int len \<or> int len dvd i + d)"
  using rotateIdx_range [of len i d] by (auto simp: wrapsTo_def)

text \<open>
  C3, as the code has it. The claim as written, for every integer direction, fails: the
  dispatcher adds the table length once before taking the remainder, and the remainder
  of JavaScript keeps the sign of a negative dividend. From the default index 3, the
  direction \<open>-12\<close> on the timebase gives \<open>(3 - 12 + 8) % 8 = -1\<close>, where the claim
  promises \<open>(3 - 12) mod 8 = 7\<close>; the index \<open>-1\<close> is outside the table. The sums are
  small, so double arithmetic is exact here.
\<close>

theorem rotary_wrap_counterexample:
  "timebaseIdx (osc world0) = 3
   \<and> exactSum (timebaseIdx (osc world0)) (- 12) (length TIMEBASE_VALUES)
   \<and> timebaseIdx (osc (snd (handleControl ''timebase'' (withDir ''timebase'' (- 12)) world0))) = - 1
   \<and> (timebaseIdx (osc world0) + (- 12)) mod int (length TIMEBASE_VALUES) = 7
   \<and> index TIMEBASE_VALUES (- 1) = None"
  by (simp add: eval_defs withDir_def exactSum_def exactInt_def)

text \<open>
  C3, amended. From an index within its table, and for every integer direction whose
  sums with the index and the table length are exact in double arithmetic (\<open>exactSum\<close>:
  magnitudes up to \<open>2 ^ 53\<close>), a Timebase, Vdiv or Trigger control sets its index to
  (old index + direction) modulo the table length, within the table, exactly when
  old index + direction + table length is not negative or the table length divides
  old index + direction, and for no other direction of that range; the default \<open>+1\<close>
  and \<open>-1\<close> are among the directions for which it does.
\<close>

theorem rotary_wraps:
  "(validIdx (timebaseIdx (osc w)) (length TIMEBASE_VALUES)
      \<and> exactSum (timebaseIdx (osc w)) (dirOf extra) (length TIMEBASE_VALUES) \<longrightarrow>
    wrapsTo (timebaseIdx (osc (snd (handleControl ''timebase'' extra w))))
            (timebaseIdx (osc w)) (dirOf extra) (length TIMEBASE_VALUES)
      = (0 \<le> timebaseIdx (osc w) + dirOf extra + int (length TIMEBASE_VALUES)
         \<or> int (length TIMEBASE_VALUES) dvd timebaseIdx (osc w) + dirOf extra))
   \<and> (validIdx (vdivIdx (osc w)) (length VDIV_VALUES)
      \<and> exactSum (vdivIdx (osc w)) (dirOf extra) (length VDIV_VALUES) \<longrightarrow>
    wrapsTo (vdivIdx (osc (snd (handleControl ''vdiv'' extra w))))
            (vdivIdx (osc w)) (dirOf extra) (length VDIV_VALUES)
      = (0 \<le> vdivIdx (osc w) + dirOf extra + int (length VDIV_VALUES)
         \<or> int (length VDIV_VALUES) dvd vdivIdx (osc w) + dirOf extra))
   \<and> (validIdx (triggerIdx (osc w)) (length TRIGGER_VALUES)
      \<and> exactSum (triggerIdx (osc w)) (dirOf extra) (length TRIGGER_VALUES) \<longrightarrow>
    wrapsTo (triggerIdx (osc (snd (handleControl ''trigger'' extra w))))
            (triggerIdx (osc w)) (dirOf extra) (length TRIGGER_VALUES)
      = (0 \<le> triggerIdx (osc w) + dirOf extra + int (length TRIGGER_VALUES)
         \<or> int (length TRIGGER_VALUES) dvd triggerIdx (osc w) + dirOf extra))"
proof -
  have "0 < length TIMEBASE_VALUES" "0 < length VDIV_VALUES" "0 < length TRIGGER_VALUES"
    by (simp_all add: TIMEBASE_VALUES_def VDIV_VALUES_def TRIGGER_VALUES_def)
  then show ?thesis
    by (simp only: handleControl_rotary_idx rotateIdx_wrapsTo) simp
qed

theorem rotary_wraps_witness:
  "validIdx (timebaseIdx (osc world0)) (length TIMEBASE_VALUES)
   \<and> exactSum (timebaseIdx (osc world0)) (- 4) (length TIMEBASE_VALUES)
   \<and> timebaseIdx (osc (snd (handleControl ''timebase'' (withDir ''timebase'' (- 4)) world0))) = 7
   \<and> validIdx (vdivIdx (osc world0)) (length VDIV_VALUES)
   \<and> exactSum (vdivIdx (osc world0)) 4 (length VDIV_VALUES)
   \<and> vdivIdx (osc (snd (handleControl ''vdiv'' (withDir ''vdiv'' 4) world0))) = 1
   \<and> validIdx (triggerIdx (osc world0)) (length TRIGGER_VALUES)
   \<and> exactSum (triggerIdx (osc world0)) (- 17) (length TRIGGER_VALUES)
   \<and> triggerIdx (osc (snd (handleControl ''trigger'' (withDir ''trigger'' (- 17)) world0))) = 0
   \<and> exactSum (timebaseIdx (osc world0)) (- 13) (length TIMEBASE_VALUES)
   \<and> \<not> wrapsTo (timebaseIdx (osc (snd (handleControl ''timebase'' (withDir ''timebase'' (- 13)) world0))))
            (timebaseIdx (osc world0)) (- 13) (length TIMEBASE_VALUES)"
  using rotary_wraps [of world0 "withDir ''timebase'' (- 4)"]
    rotary_wraps [of world0 "withDir ''vdiv'' 4"]
    rotary_wraps [of world0 "withDir ''trigger'' (- 17)"]
    rotary_wraps [of world0 "withDir ''timebase'' (- 13)"]
  by (simp add: withDir_def dirOf_def world0_def oscState0_def validIdx_def exactSum_def
        exactInt_def wrapsTo_def TIMEBASE_VALUES_def VDIV_VALUES_def TRIGGER_VALUES_def)

text \<open>
  C9. With direction \<open>+1\<close> and a valid index to start from, as many activations of a
  rotary control as its table has entries bring the index back to where it was.
\<close>

theorem full_turn_returns:
  "dirOf extra = 1 \<Longrightarrow>
   (0 \<le> timebaseIdx (osc w) \<and> timebaseIdx (osc w) < int (length TIMEBASE_VALUES) \<longrightarrow>
      timebaseIdx (osc (((\<lambda>v. snd (handleControl ''timebase'' extra v))
                           ^^ length TIMEBASE_VALUES) w)) = timebaseIdx (osc w))
   \<and> (0 \<le> vdivIdx (osc w) \<and> vdivIdx (osc w) < int (length VDIV_VALUES) \<longrightarrow>
      vdivIdx (osc (((\<lambda>v. snd (handleControl ''vdiv'' extra v))
                           ^^ length VDIV_VALUES) w)) = vdivIdx (osc w))
   \<and> (0 \<le> triggerIdx (osc w) \<and> triggerIdx (osc w) < int (length TRIGGER_VALUES) \<longrightarrow>
      triggerIdx (osc (((\<lambda>v. snd (handleControl ''trigger'' extra v))
                           ^^ length TRIGGER_VALUES) w)) = triggerIdx (osc w))"
  by (simp only: turns_idx) (simp add: rotateIdx_full_turn)

theorem full_turn_returns_witness:
  "dirOf (plainExtra ''timebase'') = 1
   \<and> 0 \<le> timebaseIdx (osc world0) \<and> timebaseIdx (osc world0) < int (length TIMEBASE_VALUES)
   \<and> 0 \<le> vdivIdx (osc world0) \<and> vdivIdx (osc world0) < int (length VDIV_VALUES)
   \<and> 0 \<le> triggerIdx (osc world0) \<and> triggerIdx (osc world0) < int (length TRIGGER_VALUES)
   \<and> timebaseIdx (osc (((\<lambda>v. snd (handleControl ''timebase'' (plainExtra ''timebase'') v))
                           ^^ length TIMEBASE_VALUES) world0)) = 3
   \<and> vdivIdx (osc (((\<lambda>v. snd (handleControl ''vdiv'' (plainExtra ''timebase'') v))
                           ^^ length VDIV_VALUES) world0)) = 3
   \<and> triggerIdx (osc (((\<lambda>v. snd (handleControl ''trigger'' (plainExtra ''timebase'') v))
                           ^^ length TRIGGER_VALUES) world0)) = 3"
proof -
  have d: "dirOf (plainExtra ''timebase'') = 1"
    by (simp add: dirOf_def plainExtra_def)
  have start: "timebaseIdx (osc world0) = 3" "vdivIdx (osc world0) = 3"
      "triggerIdx (osc world0) = 3"
    by (simp_all add: world0_def oscState0_def)
  have len: "length TIMEBASE_VALUES = 8" "length VDIV_VALUES = 6" "length TRIGGER_VALUES = 7"
    by (simp_all add: TIMEBASE_VALUES_def VDIV_VALUES_def TRIGGER_VALUES_def)
  from full_turn_returns [OF d, of world0] show ?thesis
    by (simp only: d start len) simp
qed

section \<open>The screen\<close>

lemma waveNorm_kind: "waveNorm (Some (kindName k)) t = spec_shape k t"
  by (cases k) (simp_all add: waveNorm_def)

lemma liveFrame_trace_nth:
  "px \<le> SCREEN_W \<Longrightarrow> fr_trace (liveFrame s phase) ! px = (px, traceY s phase px)"
  by (simp add: liveFrame_def nth_map_upt del: upt_Suc)

lemma traceY_tree:
  "waveform s = Some (kindName k) \<Longrightarrow>
   traceY s phase px =
     Sub (Div (Lit 320) (Lit 2))
       (Mul (spec_shape k
               (Add (Mul (Mul (Mul (Div (Lit (real px)) (Lit 512)) MathPI) (Lit 2))
                         (spec_periodsShown (tableNum TIMEBASE_VALUES (timebaseIdx s))
                            (Lit (frequency s))))
                    phase))
            (Mul (Div (Lit 320) (Lit 2))
                 (Div (Lit (amplitude s))
                      (Div (Mul (tableNum VDIV_VALUES (vdivIdx s)) (Lit 8)) (Lit 2)))))"
  by (simp add: traceY_def waveNorm_kind periodsShown_def ampScale_def spec_periodsShown_def
        Let_def SCREEN_W_def SCREEN_H_def)

lemma spec_shape_cong:
  "evalnum A a = evalnum A b \<Longrightarrow> evalnum A (spec_shape k a) = evalnum A (spec_shape k b)"
  by (cases k) simp_all

lemma angle_value:
  "doublingExact A (evalnum A u) \<Longrightarrow>
     evalnum A (Add (Mul (Mul (Mul u MathPI) (Lit 2)) p) ph) = evalnum A (spec_angle u p ph)"
  by (simp add: doublingExact_def spec_angle_def)

text \<open>
  C6. In the live mode the screen is the live frame, whose trace has one sample for each
  column \<open>px = 0, \<dots>, 512\<close>. The sample at \<open>u = px / 512\<close> is the expression written out
  below: the shape function of the waveform kind (\<open>sin\<close>, \<open>sign\<close> of \<open>sin\<close>, or
  \<open>(2 / \<pi>) * asin\<close> of \<open>sin\<close>) applied to the angle \<open>u * \<pi> * 2 * periodsShown + phase\<close>
  with \<open>periodsShown = (timebase * 10) / (1000 / frequency)\<close>, scaled and drawn from the
  middle line. The script multiplies by \<open>\<pi>\<close> and then by 2 where the specification writes
  \<open>2\<pi>\<close>: in every arithmetic in which that makes no difference at \<open>u\<close> (double arithmetic,
  and exact arithmetic) the sample has the value of the specification's formula.
\<close>

theorem live_sample_formula:
  assumes "power (osc w)" and "probeConnected (osc w)" and "isRunning (osc w)"
    and "px \<le> SCREEN_W"
    and "waveform (osc w) = Some (kindName k)"
  shows "screen (drawScreen phase w) = ScreenRun (liveFrame (osc w) phase)
    \<and> length (fr_trace (liveFrame (osc w) phase)) = 513
    \<and> fr_trace (liveFrame (osc w) phase) ! px =
        (px, Sub (Div (Lit 320) (Lit 2))
               (Mul (spec_shape k
                       (Add (Mul (Mul (Mul (Div (Lit (real px)) (Lit 512)) MathPI) (Lit 2))
                                 (spec_periodsShown
                                    (tableNum TIMEBASE_VALUES (timebaseIdx (osc w)))
                                    (Lit (frequency (osc w)))))
                            phase))
                    (Mul (Div (Lit 320) (Lit 2))
                         (Div (Lit (amplitude (osc w)))
                              (Div (Mul (tableNum VDIV_VALUES (vdivIdx (osc w))) (Lit 8))
                                   (Lit 2))))))
    \<and> (doublingExact A (evalnum A (Div (Lit (real px)) (Lit 512))) \<longrightarrow>
        evalnum A (snd (fr_trace (liveFrame (osc w) phase) ! px)) =
        evalnum A
          (Sub (Div (Lit 320) (Lit 2))
             (Mul (spec_shape k
                     (spec_angle (Div (Lit (real px)) (Lit 512))
                        (spec_periodsShown (tableNum TIMEBASE_VALUES (timebaseIdx (osc w)))
                           (Lit (frequency (osc w))))
                        phase))
                  (Mul (Div (Lit 320) (Lit 2))
                       (Div (Lit (amplitude (osc w)))
                            (Div (Mul (tableNum VDIV_VALUES (vdivIdx (osc w))) (Lit 8))
                                 (Lit 2)))))))"
proof -
  have scr: "screen (drawScreen phase w) = ScreenRun (liveFrame (osc w) phase)"
    using assms(1-3) by (simp add: drawScreen_def Let_def)
  have len: "length (fr_trace (liveFrame (osc w) phase)) = 513"
    by (simp add: liveFrame_def SCREEN_W_def del: upt_Suc)
  have tree: "fr_trace (liveFrame (osc w) phase) ! px =
        (px, Sub (Div (Lit 320) (Lit 2))
               (Mul (spec_shape k
                       (Add (Mul (Mul (Mul (Div (Lit (real px)) (Lit 512)) MathPI) (Lit 2))
                                 (spec_periodsShown
                                    (tableNum TIMEBASE_VALUES (timebaseIdx (osc w)))
                                    (Lit (frequency (osc w)))))
                            phase))
                    (Mul (Div (Lit 320) (Lit 2))
                         (Div (Lit (amplitude (osc w)))
                              (Div (Mul (tableNum VDIV_VALUES (vdivIdx (osc w))) (Lit 8))
                                   (Lit 2))))))"
    using liveFrame_trace_nth [OF assms(4), of "osc w" phase]
      traceY_tree [OF assms(5), of phase px]
    by simp
  have val: "doublingExact A (evalnum A (Div (Lit (real px)) (Lit 512))) \<longrightarrow>
        evalnum A (snd (fr_trace (liveFrame (osc w) phase) ! px)) =
        evalnum A
          (Sub (Div (Lit 320) (Lit 2))
             (Mul (spec_shape k
                     (spec_angle (Div (Lit (real px)) (Lit 512))
                        (spec_periodsShown (tableNum TIMEBASE_VALUES (timebaseIdx (osc w)))
                           (Lit (frequency (osc w))))
                        phase))
                  (Mul (Div (Lit 320) (Lit 2))
                       (Div (Lit (amplitude (osc w)))
                            (Div (Mul (tableNum VDIV_VALUES (vdivIdx (osc w))) (Lit 8))
                                 (Lit 2))))))"
  proof
    assume "doublingExact A (evalnum A (Div (Lit (real px)) (Lit 512)))"
    then have "evalnum A (Add (Mul (Mul (Mul (Div (Lit (real px)) (Lit 512)) MathPI) (Lit 2))
                                 (spec_periodsShown
                                    (tableNum TIMEBASE_VALUES (timebaseIdx (osc w)))
                                    (Lit (frequency (osc w)))))
                            phase)
      = evalnum A (spec_angle (Div (Lit (real px)) (Lit 512))
                        (spec_periodsShown (tableNum TIMEBASE_VALUES (timebaseIdx (osc w)))
                           (Lit (frequency (osc w))))
                        phase)"
      by (rule angle_value)
    from spec_shape_cong [OF this, of k]
    show "evalnum A (snd (fr_trace (liveFrame (osc w) phase) ! px)) =
        evalnum A
          (Sub (Div (Lit 320) (Lit 2))
             (Mul (spec_shape k
                     (spec_angle (Div (Lit (real px)) (Lit 512))
                        (spec_periodsShown (tableNum TIMEBASE_VALUES (timebaseIdx (osc w)))
                           (Lit (frequency (osc w))))
                        phase))
                  (Mul (Div (Lit 320) (Lit 2))
                       (Div (Lit (amplitude (osc w)))
                            (Div (Mul (tableNum VDIV_VALUES (vdivIdx (osc w))) (Lit 8))
                                 (Lit 2))))))"
      by (simp add: tree)
  qed
  from scr len tree val show ?thesis
    by (intro conjI)
qed


theorem live_sample_formula_witness:
  "power (osc squareWorld) \<and> probeConnected (osc squareWorld) \<and> isRunning (osc squareWorld)
   \<and> 100 \<le> SCREEN_W
   \<and> waveform (osc squareWorld) = Some (kindName Square)
   \<and> fr_trace (liveFrame (osc squareWorld) (Lit 2)) ! 100 =
        (100, Sub (Div (Lit 320) (Lit 2))
                (Mul (MathSign (MathSin
                       (Add (Mul (Mul (Mul (Div (Lit 100) (Lit 512)) MathPI) (Lit 2))
                                 (Div (Mul (Lit 2) (Lit 10)) (Div (Lit 1000) (Lit 1000))))
                            (Lit 2))))
                     (Mul (Div (Lit 320) (Lit 2))
                          (Div (Lit 3) (Div (Mul (Lit 1) (Lit 8)) (Lit 2))))))
   \<and> doublingExact exactArith (evalnum exactArith (Div (Lit (real 100)) (Lit 512)))
   \<and> evalnum exactArith (snd (fr_trace (liveFrame (osc squareWorld) (Lit 2)) ! 100)) =
        Some (160 - sgn (sin (100 / 512 * (2 * pi) * 20 + 2)) * 120)"
proof -
  have h1: "power (osc squareWorld)" and h2: "probeConnected (osc squareWorld)"
    and h3: "isRunning (osc squareWorld)"
    by (simp_all add: squareWorld_def waveExtra_def eval_defs)
  have h4: "100 \<le> SCREEN_W"
    by (simp add: SCREEN_W_def)
  have h5: "waveform (osc squareWorld) = Some (kindName Square)"
    by (simp add: squareWorld_def waveExtra_def eval_defs)
  have st: "timebaseIdx (osc squareWorld) = 4" "vdivIdx (osc squareWorld) = 3"
      "frequency (osc squareWorld) = 1000" "amplitude (osc squareWorld) = 3"
    by (simp_all add: squareWorld_def waveExtra_def eval_defs)
  have tb: "tableNum TIMEBASE_VALUES 4 = Lit 2" "tableNum VDIV_VALUES 3 = Lit 1"
    by (simp_all add: tableNum_def index_def TIMEBASE_VALUES_def VDIV_VALUES_def)
  have h6: "doublingExact exactArith (evalnum exactArith (Div (Lit (real 100)) (Lit 512)))"
    by (simp add: doublingExact_def exactArith_def lift2_def)
  from live_sample_formula [OF h1 h2 h3 h4 h5, of "Lit 2" exactArith] h1 h2 h3 h4 h5 h6
  show ?thesis
    by (simp add: st tb spec_periodsShown_def spec_angle_def exactArith_def lift2_def)
qed

text \<open>
  C10. Drawn with the power on, the probe connected, the display stopped and no frame
  captured, the screen is not the stop screen: it is the live frame, that frame becomes
  the captured one, and the frame is the one written out below, computed from the
  current waveform, indices, frequency, amplitude and phase.
\<close>

theorem stopped_without_frame_draws_live:
  "power (osc w) \<and> probeConnected (osc w) \<and> \<not> isRunning (osc w) \<and> frozenImageData w = None
   \<Longrightarrow>
     drawScreen phase w =
       w\<lparr>screen := ScreenRun (liveFrame (osc w) phase),
         frozenImageData := Some (liveFrame (osc w) phase)\<rparr>
     \<and> liveFrame (osc w) phase =
       \<lparr>fr_trace =
          map (\<lambda>px.
                (px,
                 Sub (Div (Lit 320) (Lit 2))
                   (Mul (let t = Add (Mul (Mul (Mul (Div (Lit (real px)) (Lit 512)) MathPI) (Lit 2))
                                        (Div (Mul (tableNum TIMEBASE_VALUES (timebaseIdx (osc w)))
                                                  (Lit 10))
                                             (Div (Lit 1000) (Lit (frequency (osc w))))))
                                   phase
                         in if waveform (osc w) = Some ''sine'' then MathSin t
                            else if waveform (osc w) = Some ''square'' then MathSign (MathSin t)
                            else Mul (Div (Lit 2) MathPI) (MathAsin (MathSin t)))
                        (Mul (Div (Lit 320) (Lit 2))
                             (Div (Lit (amplitude (osc w)))
                                  (Div (Mul (tableNum VDIV_VALUES (vdivIdx (osc w))) (Lit 8))
                                       (Lit 2)))))))
              [0..<513],
        fr_trigY =
          Sub (Div (Lit 320) (Lit 2))
              (Mul (Div (tableNum TRIGGER_VALUES (triggerIdx (osc w))) (Lit 4))
                   (Div (Lit 320) (Lit 2))),
        fr_freq = (if frequency (osc w) \<ge> 1000
                   then KHz (Div (Lit (frequency (osc w))) (Lit 1000))
                   else Hz (Lit (frequency (osc w)))),
        fr_vpp = Mul (Lit (amplitude (osc w))) (Lit 2),
        fr_timebase = tableNum TIMEBASE_VALUES (timebaseIdx (osc w)),
        fr_vdiv = tableNum VDIV_VALUES (vdivIdx (osc w))\<rparr>"
  by (simp add: drawScreen_def liveFrame_def traceY_def waveNorm_def periodsShown_def
        ampScale_def trigY_def Let_def SCREEN_W_def SCREEN_H_def del: upt_Suc)

theorem stopped_without_frame_draws_live_witness:
  "power (osc stoppedEarly) \<and> probeConnected (osc stoppedEarly)
   \<and> \<not> isRunning (osc stoppedEarly) \<and> frozenImageData stoppedEarly = None
   \<and> screen stoppedEarly = ScreenBlank
   \<and> screen (drawScreen (Lit 2) stoppedEarly) =
       ScreenRun
       \<lparr>fr_trace =
          map (\<lambda>px.
                (px,
                 Sub (Div (Lit 320) (Lit 2))
                   (Mul (Mul (Div (Lit 2) MathPI)
                          (MathAsin (MathSin
                            (Add (Mul (Mul (Mul (Div (Lit (real px)) (Lit 512)) MathPI) (Lit 2))
                                      (Div (Mul (Lit 1) (Lit 10)) (Div (Lit 1000) (Lit 1000))))
                                 (Lit 2)))))
                        (Mul (Div (Lit 320) (Lit 2))
                             (Div (Lit 3) (Div (Mul (Lit 2) (Lit 8)) (Lit 2)))))))
              [0..<513],
        fr_trigY = Sub (Div (Lit 320) (Lit 2)) (Mul (Div (Lit 1) (Lit 4)) (Div (Lit 320) (Lit 2))),
        fr_freq = KHz (Div (Lit 1000) (Lit 1000)),
        fr_vpp = Mul (Lit 3) (Lit 2),
        fr_timebase = Lit 1,
        fr_vdiv = Lit 2\<rparr>
   \<and> frozenImageData (drawScreen (Lit 2) stoppedEarly) =
       Some (liveFrame (osc stoppedEarly) (Lit 2))
   \<and> screen (drawScreen (Lit 2) stoppedEarly) = ScreenRun (liveFrame (osc stoppedEarly) (Lit 2))"
proof -
  have h: "power (osc stoppedEarly) \<and> probeConnected (osc stoppedEarly)
      \<and> \<not> isRunning (osc stoppedEarly) \<and> frozenImageData stoppedEarly = None"
    by (simp add: stoppedEarly_def waveExtra_def eval_defs)
  have blank: "screen stoppedEarly = ScreenBlank"
    by (simp add: stoppedEarly_def waveExtra_def eval_defs)
  have st: "timebaseIdx (osc stoppedEarly) = 3" "vdivIdx (osc stoppedEarly) = 4"
      "triggerIdx (osc stoppedEarly) = 4" "waveform (osc stoppedEarly) = Some ''triangle''"
      "frequency (osc stoppedEarly) = 1000" "amplitude (osc stoppedEarly) = 3"
    by (simp_all add: stoppedEarly_def waveExtra_def eval_defs)
  have tb: "tableNum TIMEBASE_VALUES 3 = Lit 1" "tableNum VDIV_VALUES 4 = Lit 2"
      "tableNum TRIGGER_VALUES 4 = Lit 1"
    by (simp_all add: tableNum_def index_def TIMEBASE_VALUES_def VDIV_VALUES_def
          TRIGGER_VALUES_def)
  from stopped_without_frame_draws_live [OF h, of "Lit 2"] h blank show ?thesis
    by (simp add: st tb del: upt_Suc)
qed

end
